theory Spec2Isabelle
  imports Complex_Main "HOL-Library.Sublist"
begin

section \<open>Numbers and their text\<close>

text \<open>
  A JavaScript number is modelled by its exact value, a rational: the arithmetic of
  \<^verbatim>\<open>runSensitivity\<close> (\<^verbatim>\<open>shiftPct / 100\<close>, \<^verbatim>\<open>1 - _\<close>, \<^verbatim>\<open>1 + _\<close>,
  \<^verbatim>\<open>base * factor\<close>) is taken without the rounding of IEEE doubles, and NaN and the
  infinities are left out. Every form field is set by \<^verbatim>\<open>Number(e.target.value)\<close> from
  a decimal string, so the values the component holds are decimal fractions.
\<close>

definition digit_char :: "nat \<Rightarrow> char" where
  "digit_char d = ''0123456789'' ! (d mod 10)"

fun digits :: "nat \<Rightarrow> string" where
  "digits n = (if n < 10 then [digit_char n] else digits (n div 10) @ [digit_char (n mod 10)])"

declare digits.simps [simp del]

text \<open>
  \<^verbatim>\<open>Number::toString\<close> of ECMAScript, which template literals apply to a number
  (\<^verbatim>\<open>`${maturity}`\<close>): the value is written as \<open>s * 10 ^ (n - k)\<close> with \<open>k\<close> digits
  \<open>s\<close>, \<open>k\<close> as small as possible, and printed in positional notation when
  \<open>-6 < n \<le> 21\<close>, with an exponent otherwise. \<open>scale10\<close> finds the integer \<open>s0\<close> and
  the number \<open>j\<close> of decimals with \<open>x = s0 / 10 ^ j\<close> (it gives up after its fuel, which
  a decimal fraction of at most 30 decimals never reaches), \<open>strip10\<close> removes the
  trailing zeros. The text is the one JavaScript prints for every decimal fraction of
  at most 15 significant digits.
\<close>

fun scale10 :: "nat \<Rightarrow> rat \<Rightarrow> nat \<Rightarrow> nat \<times> nat" where
  "scale10 0 x j = (nat \<lfloor>x\<rfloor>, j)"
| "scale10 (Suc fuel) x j =
     (if x = of_int \<lfloor>x\<rfloor> then (nat \<lfloor>x\<rfloor>, j) else scale10 fuel (x * 10) (Suc j))"

function strip10 :: "nat \<Rightarrow> int \<Rightarrow> nat \<times> int" where
  "strip10 s e = (if s \<noteq> 0 \<and> s mod 10 = 0 then strip10 (s div 10) (e + 1) else (s, e))"
  by pat_completeness auto
termination
  by (relation "measure (\<lambda>(s, e). s)") auto

declare strip10.simps [simp del]

definition Number_toString_pos :: "rat \<Rightarrow> string" where
  "Number_toString_pos x =
     (let (s0, j) = scale10 30 x 0;
          (s, e) = strip10 s0 (- int j);
          ds = digits s;
          k = int (length ds);
          n = k + e
      in if k \<le> n \<and> n \<le> 21 then ds @ replicate (nat (n - k)) CHR ''0''
         else if 0 < n \<and> n \<le> 21 then take (nat n) ds @ ''.'' @ drop (nat n) ds
         else if - 6 < n \<and> n \<le> 0 then ''0.'' @ replicate (nat (- n)) CHR ''0'' @ ds
         else (if k = 1 then ds else take 1 ds @ ''.'' @ drop 1 ds)
              @ ''e'' @ (if 0 \<le> n - 1 then ''+'' else ''-'') @ digits (nat \<bar>n - 1\<bar>))"

definition Number_toString :: "rat \<Rightarrow> string" where
  "Number_toString x =
     (if x = 0 then ''0''
      else if x < 0 then ''-'' @ Number_toString_pos (- x)
      else Number_toString_pos x)"

text \<open>
  \<^verbatim>\<open>Number.prototype.toFixed(f)\<close> of ECMAScript: the sign, then the integer \<open>n\<close>
  nearest to \<open>x * 10 ^ f\<close> (the larger one of two), its digits padded with zeros to
  \<open>f + 1\<close> places and a point before the last \<open>f\<close>. From \<open>10 ^ 21\<close> on it answers
  with \<^verbatim>\<open>Number::toString\<close>.
\<close>

definition toFixed :: "rat \<Rightarrow> nat \<Rightarrow> string" where
  "toFixed x0 f =
     (let s = (if x0 < 0 then ''-'' else '''');
          x = (if x0 < 0 then - x0 else x0)
      in if 10 ^ 21 \<le> x then s @ Number_toString x
         else
           let n = nat \<lfloor>x * 10 ^ f + 1 / 2\<rfloor>;
               m = digits n
           in if f = 0 then s @ m
              else
                let m' = replicate (f + 1 - length m) CHR ''0'' @ m;
                    k = length m'
                in s @ take (k - f) m' @ ''.'' @ drop (k - f) m')"

text \<open>A text in fixed notation with exactly four decimals: \<^verbatim>\<open>-?[0-9]+\.[0-9]{4}\<close>.\<close>

definition is_digit :: "char \<Rightarrow> bool" where
  "is_digit c = (c \<in> set ''0123456789'')"

definition unsigned_fixed4 :: "string \<Rightarrow> bool" where
  "unsigned_fixed4 t =
     (5 < length t \<and> t ! (length t - 5) = CHR ''.'' \<and>
      list_all is_digit (take (length t - 5) t) \<and> list_all is_digit (drop (length t - 4) t))"

definition is_fixed4 :: "string \<Rightarrow> bool" where
  "is_fixed4 t = (case t of c # r \<Rightarrow> if c = CHR ''-'' then unsigned_fixed4 r else unsigned_fixed4 t
                  | [] \<Rightarrow> False)"

section \<open>The state of the component\<close>

datatype model_type = GBM | OU

datatype shock_param = Spot | Vol

datatype json =
  JNull | JBool bool | JNum rat | JStr string | JArr "json list" | JObj "(string \<times> json) list"

text \<open>An object as the list of its own properties, in insertion order.\<close>

type_synonym js_object = "(string \<times> json) list"

record app_state =
  loading :: bool
  errorMsg :: "string option"
  modelType :: model_type
  maturity :: rat
  r_dom :: rat
  r_for :: rat
  gbmSpot :: rat
  gbmSigma :: rat
  gbmMu :: rat
  ouSpot :: rat
  ouKappa :: rat
  ouTheta :: rat
  ouSigma :: rat
  shockParam :: shock_param
  shiftPct :: rat
  underlyingStats :: "js_object list"
  pvStats :: "js_object list"

text \<open>The initial values given to \<^verbatim>\<open>useState\<close>.\<close>

definition initialState :: app_state where
  "initialState =
     \<lparr>loading = False, errorMsg = None, modelType = GBM,
      maturity = 1, r_dom = 3 / 100, r_for = 1 / 100,
      gbmSpot = 11 / 10, gbmSigma = 15 / 100, gbmMu = 5 / 100,
      ouSpot = 11 / 10, ouKappa = 3, ouTheta = 11 / 10, ouSigma = 12 / 100,
      shockParam = Spot, shiftPct = 20,
      underlyingStats = [], pvStats = []\<rparr>"

section \<open>The world outside\<close>

datatype body = Malformed string | Parsed json

record response =
  status :: nat
  body :: body

text \<open>\<^verbatim>\<open>res.ok\<close>: the status is in the range 200 to 299.\<close>

definition ok :: "response \<Rightarrow> bool" where
  "ok res = (200 \<le> status res \<and> status res \<le> 299)"

text \<open>
  \<^verbatim>\<open>fetch\<close> rejects with a value (an \<^verbatim>\<open>Error\<close> with its message, or \<open>None\<close> for a
  value that is no \<^verbatim>\<open>Error\<close>) or resolves with a response. \<^verbatim>\<open>res.json()\<close> rejects
  with a \<^verbatim>\<open>SyntaxError\<close> (\<open>Malformed\<close>, with its message) or resolves with the parsed
  value.
\<close>

datatype fetch_outcome = Rejected "string option" | Resolved response

text \<open>
  The environment of a run: the configured address, the outcome of the \<open>i\<close>-th call of
  \<^verbatim>\<open>fetch\<close> on an address, and the message the engine gives the \<^verbatim>\<open>TypeError\<close> it
  raises while the tagging expressions are evaluated on a parsed body.
\<close>

record env =
  VITE_API_URL :: "string option"
  fetch :: "nat \<Rightarrow> string \<Rightarrow> fetch_outcome"
  typeErrorMessage :: "json \<Rightarrow> string"

datatype thrown =
  FetchRejected "string option"
  | ScenarioFailed string
  | JsonRejected string
  | TypeError string

text \<open>\<^verbatim>\<open>err instanceof Error ? err.message : 'Failed to run sensitivity'\<close>\<close>

fun errorText :: "thrown \<Rightarrow> string" where
  "errorText (FetchRejected None) = ''Failed to run sensitivity''"
| "errorText (FetchRejected (Some m)) = m"
| "errorText (ScenarioFailed m) = m"
| "errorText (JsonRejected m) = m"
| "errorText (TypeError m) = m"

section \<open>Scenarios and requests\<close>

text \<open>\<^verbatim>\<open>import.meta.env.VITE_API_URL || 'http://localhost:5053'\<close>\<close>

definition API_BASE :: "env \<Rightarrow> string" where
  "API_BASE e =
     (case VITE_API_URL e of
        None \<Rightarrow> ''http://localhost:5053''
      | Some u \<Rightarrow> if u = [] then ''http://localhost:5053'' else u)"

fun model_name :: "model_type \<Rightarrow> string" where
  "model_name GBM = ''gbm''"
| "model_name OU = ''ou''"

definition baseSpot :: "app_state \<Rightarrow> rat" where
  "baseSpot st = (if modelType st = GBM then gbmSpot st else ouSpot st)"

definition baseVol :: "app_state \<Rightarrow> rat" where
  "baseVol st = (if modelType st = GBM then gbmSigma st else ouSigma st)"

definition shiftFactors :: "app_state \<Rightarrow> rat list" where
  "shiftFactors st = [1 - shiftPct st / 100, 1, 1 + shiftPct st / 100]"

definition scenarioLabels :: "app_state \<Rightarrow> string list" where
  "scenarioLabels st =
     [''Down -'' @ Number_toString (shiftPct st) @ ''%'',
      ''Base 0%'',
      ''Up +'' @ Number_toString (shiftPct st) @ ''%'']"

definition currentSpot :: "app_state \<Rightarrow> nat \<Rightarrow> rat" where
  "currentSpot st i =
     (if shockParam st = Spot then baseSpot st * (shiftFactors st ! i) else baseSpot st)"

definition currentVol :: "app_state \<Rightarrow> nat \<Rightarrow> rat" where
  "currentVol st i =
     (if shockParam st = Vol then baseVol st * (shiftFactors st ! i) else baseVol st)"

text \<open>The address built in iteration \<open>i\<close> of the loop.\<close>

definition requestUrl :: "env \<Rightarrow> app_state \<Rightarrow> nat \<Rightarrow> string" where
  "requestUrl e st i =
     (let url = API_BASE e @ ''/api/simulation/fx-forward-paths?'';
          url = url @ ''model='' @ model_name (modelType st) @ ''&paths=200&steps=200&maturity=''
                    @ Number_toString (maturity st);
          url = url @ ''&r_dom='' @ Number_toString (r_dom st) @ ''&r_for=''
                    @ Number_toString (r_for st) @ ''&spot='' @ toFixed (currentSpot st i) 4
      in if modelType st = GBM then url @ ''&sigma_gbm='' @ toFixed (currentVol st i) 4
         else url @ ''&sigma_ou='' @ toFixed (currentVol st i) 4
                  @ ''&kappa='' @ Number_toString (ouKappa st)
                  @ ''&theta='' @ Number_toString (ouTheta st))"

text \<open>
  The numbers a request carries, by the name of their query parameter, in the order of the
  address, and the numbers of the form they come from.
\<close>

definition effectiveParams :: "app_state \<Rightarrow> nat \<Rightarrow> (string \<times> rat) list" where
  "effectiveParams st i =
     [(''maturity'', maturity st), (''r_dom'', r_dom st), (''r_for'', r_for st),
      (''spot'', currentSpot st i)]
     @ (if modelType st = GBM then [(''sigma_gbm'', currentVol st i)]
        else [(''sigma_ou'', currentVol st i), (''kappa'', ouKappa st), (''theta'', ouTheta st)])"



text \<open>How the address writes the number of a parameter.\<close>

definition formatParam :: "string \<times> rat \<Rightarrow> string" where
  "formatParam p =
     (if fst p \<in> {''spot'', ''sigma_gbm'', ''sigma_ou''} then toFixed (snd p) 4
      else Number_toString (snd p))"

text \<open>The components of the query of an address: what follows the first \<open>?\<close>, cut at every \<open>&\<close>.\<close>

fun split_on :: "char \<Rightarrow> string \<Rightarrow> string list" where
  "split_on c [] = [[]]"
| "split_on c (x # xs) =
     (if x = c then [] # split_on c xs
      else (case split_on c xs of w # ws \<Rightarrow> (x # w) # ws | [] \<Rightarrow> [[x]]))"

definition queryComponents :: "string \<Rightarrow> string list" where
  "queryComponents url = split_on CHR ''&'' (drop 1 (dropWhile (\<lambda>c. c \<noteq> CHR ''?'') url))"

section \<open>One scenario call\<close>

text \<open>\<^verbatim>\<open>{...p}\<close>: the own enumerable properties of a value.\<close>

fun spread :: "json \<Rightarrow> js_object" where
  "spread (JObj kvs) = kvs"
| "spread (JArr xs) = zip (map (\<lambda>i. digits i) [0..<length xs]) xs"
| "spread (JStr s) = zip (map (\<lambda>i. digits i) [0..<length s]) (map (\<lambda>c. JStr [c]) s)"
| "spread _ = []"

fun set_prop :: "string \<Rightarrow> json \<Rightarrow> js_object \<Rightarrow> js_object" where
  "set_prop k v [] = [(k, v)]"
| "set_prop k v ((k', v') # r) = (if k' = k then (k, v) # r else (k', v') # set_prop k v r)"

text \<open>\<^verbatim>\<open>{...p, scenario: scenarioLabels[i]}\<close>\<close>

definition tagPoint :: "string \<Rightarrow> json \<Rightarrow> js_object" where
  "tagPoint label p = set_prop ''scenario'' (JStr label) (spread p)"

text \<open>
  \<^verbatim>\<open>data.underlyingStats.map(...)\<close> is evaluated without a \<^verbatim>\<open>TypeError\<close> exactly when
  \<^verbatim>\<open>data\<close> is an object whose property of that name is an array.
\<close>

fun statsArray :: "json \<Rightarrow> string \<Rightarrow> json list option" where
  "statsArray (JObj kvs) name = (case map_of kvs name of Some (JArr ps) \<Rightarrow> Some ps | _ \<Rightarrow> None)"
| "statsArray _ name = None"

text \<open>Lines 97 to 110 of the loop body, on the outcome of the \<^verbatim>\<open>fetch\<close> of line 96.\<close>

definition handleResponse ::
  "env \<Rightarrow> string \<Rightarrow> fetch_outcome \<Rightarrow> thrown + (js_object list \<times> js_object list)" where
  "handleResponse e label out =
     (case out of
        Rejected r \<Rightarrow> Inl (FetchRejected r)
      | Resolved res \<Rightarrow>
          if \<not> ok res
          then Inl (ScenarioFailed (''Scenario '' @ label @ '' failed: ''
                                     @ Number_toString (of_nat (status res))))
          else (case body res of
                  Malformed m \<Rightarrow> Inl (JsonRejected m)
                | Parsed data \<Rightarrow>
                    (case statsArray data ''underlyingStats'' of
                       None \<Rightarrow> Inl (TypeError (typeErrorMessage e data))
                     | Some us \<Rightarrow>
                         (case statsArray data ''pvStats'' of
                            None \<Rightarrow> Inl (TypeError (typeErrorMessage e data))
                          | Some ps \<Rightarrow> Inr (map (tagPoint label) us, map (tagPoint label) ps)))))"

section \<open>The run\<close>

definition enterRunning :: "app_state \<Rightarrow> app_state" where
  "enterRunning st = st\<lparr>loading := True, errorMsg := None, underlyingStats := [], pvStats := []\<rparr>"

text \<open>
  The body of iteration \<open>i\<close>, lines 82 to 110: the address is built, fetched, and the
  response handled under the label of the scenario.
\<close>

definition scenarioResult ::
  "env \<Rightarrow> app_state \<Rightarrow> nat \<Rightarrow> thrown + (js_object list \<times> js_object list)" where
  "scenarioResult e st i =
     handleResponse e (scenarioLabels st ! i) (fetch e i (requestUrl e st i))"

text \<open>
  The loop of lines 81 to 114 from iteration \<open>i\<close> on, with the two local arrays. The
  parameters are read from \<open>st\<close>, the values the closure of the handler holds.
\<close>

function loop ::
  "env \<Rightarrow> app_state \<Rightarrow> nat \<Rightarrow> js_object list \<times> js_object list
     \<Rightarrow> thrown + (js_object list \<times> js_object list)" where
  "loop e st i acc =
     (if i < 3 then
        (case scenarioResult e st i of
           Inl err \<Rightarrow> Inl err
         | Inr tagged \<Rightarrow> loop e st (Suc i) (fst acc @ fst tagged, snd acc @ snd tagged))
      else Inr acc)"
  by pat_completeness auto
termination
  by (relation "measure (\<lambda>(e, st, i, acc). 3 - i)") auto

declare loop.simps [simp del]

definition runSensitivity :: "env \<Rightarrow> app_state \<Rightarrow> app_state" where
  "runSensitivity e st =
     (let st1 = enterRunning st
      in case loop e st 0 ([], []) of
           Inr (allUnderlying, allPv) \<Rightarrow>
             st1\<lparr>underlyingStats := allUnderlying, pvStats := allPv, loading := False\<rparr>
         | Inl err \<Rightarrow> st1\<lparr>errorMsg := Some (errorText err), loading := False\<rparr>)"

text \<open>
  The tagging and pushing of lines 102 to 113 over a list of labelled bodies
  (\<^verbatim>\<open>underlyingStats\<close>, \<^verbatim>\<open>pvStats\<close>), starting from the two empty arrays.
\<close>

fun aggregate_from ::
  "js_object list \<times> js_object list \<Rightarrow> (string \<times> json list \<times> json list) list
     \<Rightarrow> js_object list \<times> js_object list" where
  "aggregate_from acc [] = acc"
| "aggregate_from acc ((label, us, ps) # rest) =
     aggregate_from (fst acc @ map (tagPoint label) us, snd acc @ map (tagPoint label) ps) rest"

definition aggregate ::
  "(string \<times> json list \<times> json list) list \<Rightarrow> js_object list \<times> js_object list" where
  "aggregate pairs = aggregate_from ([], []) pairs"

section \<open>The component and its events\<close>

text \<open>
  The shape the interface \<^verbatim>\<open>StatsPoint\<close> declares for a point (\<^verbatim>\<open>time\<close>, \<^verbatim>\<open>mean\<close>,
  \<^verbatim>\<open>p5\<close>, \<^verbatim>\<open>p95\<close>, all numbers), and a body with the two arrays of such points.
\<close>

fun isNumber :: "json \<Rightarrow> bool" where
  "isNumber (JNum x) = True"
| "isNumber _ = False"

fun isStatsPoint :: "json \<Rightarrow> bool" where
  "isStatsPoint (JObj kvs) =
     list_all (\<lambda>k. case map_of kvs k of Some v \<Rightarrow> isNumber v | None \<Rightarrow> False)
       [''time'', ''mean'', ''p5'', ''p95'']"
| "isStatsPoint _ = False"

definition conformsToShape :: "json \<Rightarrow> bool" where
  "conformsToShape data =
     (case statsArray data ''underlyingStats'' of
        None \<Rightarrow> False
      | Some us \<Rightarrow>
          (case statsArray data ''pvStats'' of
             None \<Rightarrow> False
           | Some ps \<Rightarrow> list_all isStatsPoint us \<and> list_all isStatsPoint ps))"

text \<open>
  An invocation of \<^verbatim>\<open>runSensitivity\<close> that waits at the \<^verbatim>\<open>await fetch(url)\<close> of
  iteration \<open>idx\<close>: the form values its closure holds and its two local arrays.
\<close>

record run_state =
  snapshot :: app_state
  idx :: nat
  allUnderlying :: "js_object list"
  allPv :: "js_object list"

text \<open>
  The component: the state it renders from, the invocations in flight, and the addresses
  fetched so far.
\<close>

record ui_state =
  view :: app_state
  runs :: "run_state list"
  requests :: "string list"

definition initialUi :: ui_state where
  "initialUi = \<lparr>view = initialState, runs = [], requests = []\<rparr>"

text \<open>The \<^verbatim>\<open>onChange\<close> handlers of the form; the shift is one of three radio buttons.\<close>

datatype field_edit =
  SetModelType model_type
  | SetShockParam shock_param
  | SetMaturity rat
  | SetR_dom rat
  | SetR_for rat
  | SetGbmSpot rat
  | SetGbmSigma rat
  | SetGbmMu rat
  | SetOuSpot rat
  | SetOuKappa rat
  | SetOuTheta rat
  | SetOuSigma rat
  | SetShiftPct rat

fun applyEdit :: "field_edit \<Rightarrow> app_state \<Rightarrow> app_state" where
  "applyEdit (SetModelType m) st = st\<lparr>modelType := m\<rparr>"
| "applyEdit (SetShockParam p) st = st\<lparr>shockParam := p\<rparr>"
| "applyEdit (SetMaturity x) st = st\<lparr>maturity := x\<rparr>"
| "applyEdit (SetR_dom x) st = st\<lparr>r_dom := x\<rparr>"
| "applyEdit (SetR_for x) st = st\<lparr>r_for := x\<rparr>"
| "applyEdit (SetGbmSpot x) st = st\<lparr>gbmSpot := x\<rparr>"
| "applyEdit (SetGbmSigma x) st = st\<lparr>gbmSigma := x\<rparr>"
| "applyEdit (SetGbmMu x) st = st\<lparr>gbmMu := x\<rparr>"
| "applyEdit (SetOuSpot x) st = st\<lparr>ouSpot := x\<rparr>"
| "applyEdit (SetOuKappa x) st = st\<lparr>ouKappa := x\<rparr>"
| "applyEdit (SetOuTheta x) st = st\<lparr>ouTheta := x\<rparr>"
| "applyEdit (SetOuSigma x) st = st\<lparr>ouSigma := x\<rparr>"
| "applyEdit (SetShiftPct p) st = (if p \<in> set [10, 20, 50] then st\<lparr>shiftPct := p\<rparr> else st)"

text \<open>
  What can happen to the component: a click on the button, the \<^verbatim>\<open>fetch\<close> that the
  \<open>k\<close>-th invocation in flight waits for settles with an outcome, or a form field is
  edited.
\<close>

datatype ui_event = Click | Settle nat fetch_outcome | Edit field_edit

text \<open>
  \<^verbatim>\<open>runSensitivity\<close> up to its first \<^verbatim>\<open>await\<close>: the four updates of lines 57 to 60,
  and the first address is fetched.
\<close>

definition startRun :: "env \<Rightarrow> ui_state \<Rightarrow> ui_state" where
  "startRun e u =
     u\<lparr>view := enterRunning (view u),
       runs := runs u @ [\<lparr>snapshot = view u, idx = 0, allUnderlying = [], allPv = []\<rparr>],
       requests := requests u @ [requestUrl e (view u) 0]\<rparr>"

definition removeRun :: "nat \<Rightarrow> run_state list \<Rightarrow> run_state list" where
  "removeRun k rs = take k rs @ drop (Suc k) rs"

text \<open>
  The \<open>k\<close>-th invocation continues from its \<^verbatim>\<open>await\<close> with the outcome: it throws into
  the \<^verbatim>\<open>catch\<close> and \<^verbatim>\<open>finally\<close> blocks, or pushes the tagged points and either fetches
  the next address or, after the third scenario, publishes the two arrays. The updates made
  between two \<^verbatim>\<open>await\<close>s are applied to the rendered state together.
\<close>

definition settle :: "env \<Rightarrow> ui_state \<Rightarrow> nat \<Rightarrow> fetch_outcome \<Rightarrow> ui_state" where
  "settle e u k out =
     (let r = runs u ! k
      in case handleResponse e (scenarioLabels (snapshot r) ! idx r) out of
           Inl err \<Rightarrow>
             u\<lparr>view := (view u)\<lparr>errorMsg := Some (errorText err), loading := False\<rparr>,
               runs := removeRun k (runs u)\<rparr>
         | Inr tagged \<Rightarrow>
             (let au = allUnderlying r @ fst tagged;
                  ap = allPv r @ snd tagged
              in if Suc (idx r) < 3
                 then u\<lparr>runs := (runs u)[k := r\<lparr>idx := Suc (idx r), allUnderlying := au,
                                                allPv := ap\<rparr>],
                        requests := requests u @ [requestUrl e (snapshot r) (Suc (idx r))]\<rparr>
                 else u\<lparr>view := (view u)\<lparr>underlyingStats := au, pvStats := ap,
                                           loading := False\<rparr>,
                        runs := removeRun k (runs u)\<rparr>))"

text \<open>
  The button carries \<^verbatim>\<open>onClick={runSensitivity}\<close> and \<^verbatim>\<open>disabled={loading}\<close>: a click
  on the disabled button calls no handler.
\<close>

fun step :: "env \<Rightarrow> ui_state \<Rightarrow> ui_event \<Rightarrow> ui_state" where
  "step e u Click = (if loading (view u) then u else startRun e u)"
| "step e u (Settle k out) = (if k < length (runs u) then settle e u k out else u)"
| "step e u (Edit ed) = u\<lparr>view := applyEdit ed (view u)\<rparr>"

inductive reachable :: "env \<Rightarrow> ui_state \<Rightarrow> bool" for e :: env where
  reachable_init: "reachable e initialUi"
| reachable_step: "reachable e u \<Longrightarrow> reachable e (step e u ev)"

text \<open>
  At most one invocation is in flight, exactly while \<open>loading\<close> is set, and while it is the
  two published arrays are empty.
\<close>

definition one_run :: "ui_state \<Rightarrow> bool" where
  "one_run u =
     (length (runs u) \<le> 1
      \<and> (loading (view u) \<longleftrightarrow> runs u \<noteq> [])
      \<and> (loading (view u) \<longrightarrow> underlyingStats (view u) = [] \<and> pvStats (view u) = [])
      \<and> list_all (\<lambda>r. idx r < 3) (runs u))"

text \<open>The events of a list, one after the other.\<close>

fun steps :: "env \<Rightarrow> ui_state \<Rightarrow> ui_event list \<Rightarrow> ui_state" where
  "steps e u [] = u"
| "steps e u (ev # evs) = steps e (step e u ev) evs"

section \<open>Sample inputs\<close>

text \<open>A body with one point in each array, and a body whose points are not numbers.\<close>

definition sampleBody :: json where
  "sampleBody =
     JObj [(''underlyingStats'',
            JArr [JObj [(''time'', JNum 0), (''mean'', JNum (11 / 10)), (''p5'', JNum 1),
                        (''p95'', JNum (6 / 5))]]),
           (''pvStats'',
            JArr [JObj [(''time'', JNum 0), (''mean'', JNum 0), (''p5'', JNum (- 1 / 10)),
                        (''p95'', JNum (1 / 10))]])]"

definition textBody :: json where
  "textBody =
     JObj [(''underlyingStats'', JArr [JObj [(''time'', JStr ''soon''), (''mean'', JNull)]]),
           (''pvStats'', JArr [])]"

text \<open>
  An environment in which the second call of \<^verbatim>\<open>fetch\<close> has the given outcome and every
  other call is answered with the sample body.
\<close>

definition secondCall :: "fetch_outcome \<Rightarrow> env" where
  "secondCall out =
     \<lparr>VITE_API_URL = None,
      fetch = (\<lambda>i u. if i = 1 then out else Resolved \<lparr>status = 200, body = Parsed sampleBody\<rparr>),
      typeErrorMessage = (\<lambda>d. ''data.underlyingStats is undefined'')\<rparr>"

text \<open>An environment with no configured address in which every call of \<^verbatim>\<open>fetch\<close> is rejected.\<close>

definition offlineEnv :: env where
  "offlineEnv =
     \<lparr>VITE_API_URL = None, fetch = (\<lambda>i u. Rejected None), typeErrorMessage = (\<lambda>d. [])\<rparr>"



text \<open>The Ornstein-Uhlenbeck form as initialised, with the volatility shocked by 10 percent.\<close>

definition ouVolState :: app_state where
  "ouVolState = initialState\<lparr>modelType := OU, shockParam := Vol, shiftPct := 10\<rparr>"

section \<open>Scenario planning\<close>

lemma Number_toString_10: "Number_toString 10 = ''10''"
  by code_simp

lemma Number_toString_20: "Number_toString 20 = ''20''"
  by code_simp

lemma Number_toString_50: "Number_toString 50 = ''50''"
  by code_simp

text \<open>
  C1: for a magnitude \<open>m\<close> of 10, 20 or 50 the run plans exactly three scenarios, Down, Base,
  Up in that order, with the factors \<open>1 - m / 100\<close>, \<open>1\<close>, \<open>1 + m / 100\<close> and the labels
  "Down -m%", "Base 0%", "Up +m%"; factors and labels depend on the magnitude alone.
\<close>

theorem plan_scenarios:
  assumes "shiftPct st = m" and "m \<in> {10, 20, 50}"
  shows "shiftFactors st = [1 - m / 100, 1, 1 + m / 100]
       \<and> length (scenarioLabels st) = 3
       \<and> (m = 10 \<longrightarrow> shiftFactors st = [9 / 10, 1, 11 / 10]
                     \<and> scenarioLabels st = [''Down -10%'', ''Base 0%'', ''Up +10%''])
       \<and> (m = 20 \<longrightarrow> shiftFactors st = [4 / 5, 1, 6 / 5]
                     \<and> scenarioLabels st = [''Down -20%'', ''Base 0%'', ''Up +20%''])
       \<and> (m = 50 \<longrightarrow> shiftFactors st = [1 / 2, 1, 3 / 2]
                     \<and> scenarioLabels st = [''Down -50%'', ''Base 0%'', ''Up +50%''])
       \<and> (\<forall>st'. shiftPct st' = m \<longrightarrow>
              shiftFactors st' = shiftFactors st \<and> scenarioLabels st' = scenarioLabels st)"
  using assms
  by (auto simp: shiftFactors_def scenarioLabels_def Number_toString_10 Number_toString_20
      Number_toString_50)

theorem plan_scenarios_witness:
  "shiftFactors initialState = [4 / 5, 1, 6 / 5]
   \<and> scenarioLabels initialState = [''Down -20%'', ''Base 0%'', ''Up +20%'']"
  using plan_scenarios [of initialState 20] by (simp add: initialState_def)

section \<open>The shape of a request\<close>

lemma requestUrl_query:
  "requestUrl e st i =
     API_BASE e @ ''/api/simulation/fx-forward-paths?model='' @ model_name (modelType st)
       @ ''&paths=200&steps=200''
       @ concat (map (\<lambda>p. ''&'' @ fst p @ ''='' @ formatParam p) (effectiveParams st i))"
  by (simp add: requestUrl_def effectiveParams_def formatParam_def Let_def)

lemma split_on_nonempty: "split_on c xs \<noteq> []"
  by (induction xs) (auto split: list.splits)

lemma split_on_sep: "split_on c (xs @ c # ys) = split_on c xs @ split_on c ys"
  using split_on_nonempty [of c]
  by (induction xs) (auto split: list.splits)

lemma split_on_free: "c \<notin> set xs \<Longrightarrow> split_on c xs = [xs]"
  by (induction xs) auto

lemma queryComponents_append:
  assumes "CHR ''?'' \<notin> set base"
  shows "queryComponents (base @ CHR ''?'' # q) = split_on CHR ''&'' q"
proof -
  have "dropWhile (\<lambda>c. c \<noteq> CHR ''?'') (base @ CHR ''?'' # q) = CHR ''?'' # q"
    using assms by (induction base) auto
  then show ?thesis by (simp add: queryComponents_def)
qed

lemma requestUrl_counts: "sublist ''&paths=200&steps=200&'' (requestUrl e st i)"
proof -
  have "requestUrl e st i =
      (API_BASE e @ ''/api/simulation/fx-forward-paths?model='' @ model_name (modelType st))
        @ ''&paths=200&steps=200&''
        @ drop 1 (concat (map (\<lambda>p. ''&'' @ fst p @ ''='' @ formatParam p) (effectiveParams st i)))"
    unfolding requestUrl_query by (simp add: effectiveParams_def)
  then show ?thesis by (simp only: sublist_appendI)
qed

lemma requests_counts:
  assumes "reachable e u"
  shows "\<forall>url\<in>set (requests u). sublist ''&paths=200&steps=200&'' url"
  using assms
proof (induction rule: reachable.induct)
  case reachable_init
  show ?case by (simp add: initialUi_def)
next
  case (reachable_step u ev)
  show ?case
  proof (cases ev)
    case Click
    with reachable_step.IH show ?thesis
      by (auto simp: startRun_def requestUrl_counts)
  next
    case (Settle k out)
    with reachable_step.IH show ?thesis
      by (auto simp: settle_def Let_def requestUrl_counts split: sum.splits)
  next
    case (Edit ed)
    with reachable_step.IH show ?thesis by simp
  qed
qed

text \<open>
  C9: every request, whatever the model, the shock, the scenario and the form values,
  carries \<open>paths=200\<close> and \<open>steps=200\<close>: the two follow the model in the address as
  literal text, they are the second and third component of its query, and every address
  the component ever fetches contains them.
\<close>

theorem fixed_counts:
  "(\<exists>post. requestUrl e st i =
       API_BASE e @ ''/api/simulation/fx-forward-paths?model='' @ model_name (modelType st)
         @ ''&paths=200&steps=200&'' @ post)
   \<and> (CHR ''?'' \<notin> set (API_BASE e) \<longrightarrow>
        take 3 (queryComponents (requestUrl e st i))
          = [''model='' @ model_name (modelType st), ''paths=200'', ''steps=200''])
   \<and> (reachable e u \<longrightarrow> (\<forall>url\<in>set (requests u). sublist ''&paths=200&steps=200&'' url))"
proof -
  let ?b = "API_BASE e @ ''/api/simulation/fx-forward-paths''"
  let ?m = "''model='' @ model_name (modelType st)"
  define post where
    "post = drop 1 (concat (map (\<lambda>p. ''&'' @ fst p @ ''='' @ formatParam p) (effectiveParams st i)))"
  have url: "requestUrl e st i = ?b @ ''?'' @ ?m @ ''&paths=200&steps=200&'' @ post"
    unfolding requestUrl_query post_def by (simp add: effectiveParams_def)
  have m: "CHR ''&'' \<notin> set ?m" by (cases "modelType st") auto
  have p2: "take 3 (queryComponents (requestUrl e st i)) = [?m, ''paths=200'', ''steps=200'']"
    if "CHR ''?'' \<notin> set (API_BASE e)"
  proof -
    have "CHR ''?'' \<notin> set ?b" using that by auto
    then have "queryComponents (?b @ CHR ''?'' # (?m @ ''&paths=200&steps=200&'' @ post))
        = split_on CHR ''&'' (?m @ ''&paths=200&steps=200&'' @ post)"
      by (rule queryComponents_append)
    moreover have
      "split_on CHR ''&'' (?m @ CHR ''&'' # (''paths=200'' @ CHR ''&'' # (''steps=200'' @ CHR ''&'' # post)))
        = [?m, ''paths=200'', ''steps=200''] @ split_on CHR ''&'' post"
      unfolding split_on_sep using split_on_free [OF m] by simp
    ultimately show ?thesis using url by simp
  qed
  have p1: "\<exists>post. requestUrl e st i =
       API_BASE e @ ''/api/simulation/fx-forward-paths?model='' @ model_name (modelType st)
         @ ''&paths=200&steps=200&'' @ post"
    by (rule exI [of _ post]) (simp add: url)
  show ?thesis
    by (intro conjI impI) (rule p1, erule p2, erule requests_counts)
qed

theorem fixed_counts_witness:
  "CHR ''?'' \<notin> set (API_BASE offlineEnv)
   \<and> take 3 (queryComponents (requestUrl offlineEnv initialState 0))
       = [''model=gbm'', ''paths=200'', ''steps=200'']
   \<and> reachable offlineEnv (step offlineEnv initialUi Click)
   \<and> requests (step offlineEnv initialUi Click) = [requestUrl offlineEnv initialState 0]
   \<and> sublist ''&paths=200&steps=200&'' (requestUrl offlineEnv initialState 0)"
proof -
  have r: "reachable offlineEnv (step offlineEnv initialUi Click)"
    by (intro reachable.intros)
  have q: "requests (step offlineEnv initialUi Click) = [requestUrl offlineEnv initialState 0]"
    by (simp add: initialUi_def initialState_def startRun_def)
  have a: "CHR ''?'' \<notin> set (API_BASE offlineEnv)"
    by (simp add: API_BASE_def offlineEnv_def)
  have m: "model_name (modelType initialState) = ''gbm''" by (simp add: initialState_def)
  note fc = fixed_counts [of offlineEnv initialState 0 "step offlineEnv initialUi Click"]
  have t: "take 3 (queryComponents (requestUrl offlineEnv initialState 0))
      = [''model=gbm'', ''paths=200'', ''steps=200'']"
    using fc [THEN conjunct2, THEN conjunct1, THEN mp, OF a] unfolding m by simp
  have "\<forall>url\<in>set (requests (step offlineEnv initialUi Click)). sublist ''&paths=200&steps=200&'' url"
    using fc [THEN conjunct2, THEN conjunct2, THEN mp, OF r] .
  then have s: "sublist ''&paths=200&steps=200&'' (requestUrl offlineEnv initialState 0)"
    unfolding q by simp
  from a t r q s show ?thesis by (intro conjI)
qed

section \<open>Evaluating the text of numbers\<close>

lemma floor_numeral_div: "\<lfloor>(numeral a :: rat) / numeral b\<rfloor> = numeral a div numeral b"
  using floor_divide_of_int_eq [of "numeral a" "numeral b", where ?'a = rat] by simp

lemma replicate_numeral: "replicate (numeral k) x = x # replicate (pred_numeral k) x"
  by (simp add: numeral_eq_Suc)

lemma digits_small: "n < 10 \<Longrightarrow> digits n = [digit_char n]"
  by (subst digits.simps) simp

lemma digits_large: "\<not> n < 10 \<Longrightarrow> digits n = digits (n div 10) @ [digit_char (n mod 10)]"
  by (subst digits.simps) simp

lemmas toFixed_eval = toFixed_def Let_def digits_small digits_large digit_char_def
  floor_numeral_div replicate_numeral

lemma toFixed_examples:
  "toFixed (22 / 25) 4 = ''0.8800''" "toFixed (11 / 10) 4 = ''1.1000''"
  "toFixed (33 / 25) 4 = ''1.3200''" "toFixed (3 / 20) 4 = ''0.1500''"
  "toFixed (33 / 250) 4 = ''0.1320''"
  by (simp_all add: toFixed_eval)

lemma Number_toString_examples:
  "Number_toString 1 = ''1''" "Number_toString (3 / 100) = ''0.03''"
  "Number_toString (1 / 100) = ''0.01''" "Number_toString 3 = ''3''"
  "Number_toString (11 / 10) = ''1.1''"
  by code_simp+

section \<open>The shocked scalar\<close>




section \<open>Four decimals\<close>

lemma is_digit_digit_char: "is_digit (digit_char d)"
proof -
  have "d mod 10 < length ''0123456789''" by simp
  then have "''0123456789'' ! (d mod 10) \<in> set ''0123456789''" by (rule nth_mem)
  then show ?thesis by (simp only: is_digit_def digit_char_def)
qed

lemma digits_all_digit: "list_all is_digit (digits n)"
  by (induction n rule: digits.induct) (subst digits.simps, simp add: is_digit_digit_char)

lemma digits_nonempty: "digits n \<noteq> []"
  by (subst digits.simps) simp

lemma unsigned_fixed4_point:
  assumes "list_all is_digit m" and "5 \<le> length m"
  shows "unsigned_fixed4 (take (length m - 4) m @ ''.'' @ drop (length m - 4) m)"
proof -
  let ?t = "take (length m - 4) m @ ''.'' @ drop (length m - 4) m"
  have len: "length ?t = length m + 1" using assms(2) by simp
  have lt: "length (take (length m - 4) m) = length m - 4" by simp
  have p: "?t ! (length ?t - 5) = CHR ''.''"
    unfolding len using assms(2) lt by (simp add: nth_append)
  have t: "take (length ?t - 5) ?t = take (length m - 4) m"
    unfolding len using assms(2) by simp
  have d: "drop (length ?t - 4) ?t = drop (length m - 4) m"
    unfolding len using assms(2) by simp
  have "list_all is_digit (take (length m - 4) m)" "list_all is_digit (drop (length m - 4) m)"
    using assms(1) by (auto simp: list_all_iff dest: in_set_takeD in_set_dropD)
  then show ?thesis
    unfolding unsigned_fixed4_def t d p using len assms(2) by simp
qed

lemma is_fixed4_toFixed:
  assumes "\<bar>x\<bar> < 10 ^ 21"
  shows "is_fixed4 (toFixed x 4)"
proof -
  define n where "n = nat \<lfloor>\<bar>x\<bar> * 10 ^ 4 + 1 / 2\<rfloor>"
  define m where "m = replicate (5 - length (digits n)) CHR ''0'' @ digits n"
  define t where "t = take (length m - 4) m @ ''.'' @ drop (length m - 4) m"
  have "is_digit CHR ''0''" by (simp add: is_digit_def)
  then have dm: "list_all is_digit m"
    using digits_all_digit [of n] by (auto simp: m_def list_all_iff)
  have lm: "5 \<le> length m" by (simp add: m_def)
  have u: "unsigned_fixed4 t" unfolding t_def using dm lm by (rule unsigned_fixed4_point)
  have "t \<noteq> []" by (simp add: t_def)
  then obtain c r where cr: "t = c # r" by (cases t) auto
  have "take (length m - 4) m \<noteq> []" using lm by auto
  then have "c = hd m" using cr lm by (cases m) (auto simp: t_def take_Cons')
  moreover have "is_digit (hd m)" using dm lm by (cases m) auto
  ultimately have "c \<noteq> CHR ''-''" by (auto simp: is_digit_def)
  then have pos: "is_fixed4 t" using u cr by (simp add: is_fixed4_def)
  have neg: "is_fixed4 (CHR ''-'' # t)" using u by (simp add: is_fixed4_def)
  have "toFixed x 4 = (if x < 0 then CHR ''-'' # t else t)"
    using assms by (auto simp: toFixed_def Let_def t_def m_def n_def abs_if)
  then show ?thesis using pos neg by simp
qed

text \<open>
  The maturity 1 of the form as initialised is written \<open>1\<close>, with no decimals at all.
\<close>

theorem maturity_not_fixed4:
  "Number_toString (maturity initialState) = ''1''
   \<and> \<not> is_fixed4 (Number_toString (maturity initialState))
   \<and> requestUrl offlineEnv initialState 1 =
       ''http://localhost:5053/api/simulation/fx-forward-paths?model=gbm&paths=200&steps=200&maturity=1&r_dom=0.03&r_for=0.01&spot=1.1000&sigma_gbm=0.1500''"
  by (simp add: requestUrl_def API_BASE_def offlineEnv_def initialState_def currentSpot_def
      currentVol_def shiftFactors_def baseSpot_def baseVol_def Number_toString_examples
      toFixed_examples is_fixed4_def unsigned_fixed4_def)

text \<open>
  C4, as the code has it: the request writes the spot and the volatility with \<^verbatim>\<open>toFixed(4)\<close>,
  which gives exactly four decimals for every value below \<open>10 ^ 21\<close> in magnitude; maturity,
  \<open>r_dom\<close>, \<open>r_for\<close>, \<open>kappa\<close> and \<open>theta\<close> are written by the default conversion of a
  number to text, and \<open>paths\<close> and \<open>steps\<close> are the literal 200.
\<close>

theorem shocked_values_fixed4:
  "requestUrl e st i =
     API_BASE e @ ''/api/simulation/fx-forward-paths?model='' @ model_name (modelType st)
       @ ''&paths=200&steps=200&maturity='' @ Number_toString (maturity st)
       @ ''&r_dom='' @ Number_toString (r_dom st) @ ''&r_for='' @ Number_toString (r_for st)
       @ ''&spot='' @ toFixed (currentSpot st i) 4
       @ (if modelType st = GBM then ''&sigma_gbm='' @ toFixed (currentVol st i) 4
          else ''&sigma_ou='' @ toFixed (currentVol st i) 4
               @ ''&kappa='' @ Number_toString (ouKappa st)
               @ ''&theta='' @ Number_toString (ouTheta st))
   \<and> (\<bar>currentSpot st i\<bar> < 10 ^ 21 \<longrightarrow> is_fixed4 (toFixed (currentSpot st i) 4))
   \<and> (\<bar>currentVol st i\<bar> < 10 ^ 21 \<longrightarrow> is_fixed4 (toFixed (currentVol st i) 4))"
  by (simp add: requestUrl_def Let_def is_fixed4_toFixed)

theorem shocked_values_fixed4_witness:
  "\<bar>currentSpot initialState 0\<bar> < 10 ^ 21 \<and> is_fixed4 (toFixed (currentSpot initialState 0) 4)
   \<and> \<bar>currentVol initialState 0\<bar> < 10 ^ 21 \<and> is_fixed4 (toFixed (currentVol initialState 0) 4)"
  using shocked_values_fixed4 [of offlineEnv initialState 0]
  by (simp add: currentSpot_def currentVol_def initialState_def shiftFactors_def baseSpot_def
      baseVol_def)

section \<open>A request of the Ornstein-Uhlenbeck model\<close>

lemma ou_vol_up_url:
  "requestUrl offlineEnv ouVolState 2 =
     ''http://localhost:5053/api/simulation/fx-forward-paths?model=ou&paths=200&steps=200&maturity=1&r_dom=0.03&r_for=0.01&spot=1.1000&sigma_ou=0.1320&kappa=3&theta=1.1''"
  by (simp add: requestUrl_def API_BASE_def offlineEnv_def ouVolState_def initialState_def
      currentSpot_def currentVol_def shiftFactors_def baseSpot_def baseVol_def
      Number_toString_examples toFixed_examples)

lemma ou_vol_up_components:
  "queryComponents (requestUrl offlineEnv ouVolState 2)
     = [''model=ou'', ''paths=200'', ''steps=200'', ''maturity=1'', ''r_dom=0.03'', ''r_for=0.01'',
        ''spot=1.1000'', ''sigma_ou=0.1320'', ''kappa=3'', ''theta=1.1'']"
  unfolding ou_vol_up_url by (simp add: queryComponents_def)

text \<open>
  The Up request of the Ornstein-Uhlenbeck form with the volatility shocked by 10 percent
  does not contain \<open>theta=1.10\<close>.
\<close>

theorem theta_not_two_decimals:
  "\<not> sublist ''theta=1.10'' (requestUrl offlineEnv ouVolState 2)
   \<and> ''theta=1.10'' \<notin> set (queryComponents (requestUrl offlineEnv ouVolState 2))"
  unfolding ou_vol_up_components unfolding ou_vol_up_url by (simp add: sublist_code)

text \<open>
  C5, as the code has it: for the Ornstein-Uhlenbeck model with spot 1.10, kappa 3.0, theta 1.10 and
  sigma 0.12, the volatility shocked by 10 percent, the Up request ends with
  \<open>spot=1.1000\<close>, \<open>sigma_ou=0.1320\<close>, \<open>kappa=3\<close> and \<open>theta=1.1\<close>.
\<close>

theorem ou_vol_up_request:
  assumes "modelType st = OU" and "shockParam st = Vol" and "shiftPct st = 10"
    and "ouSpot st = 11 / 10" and "ouKappa st = 3" and "ouTheta st = 11 / 10"
    and "ouSigma st = 12 / 100"
  shows "\<exists>pre. requestUrl e st 2 = pre @ ''&spot=1.1000&sigma_ou=0.1320&kappa=3&theta=1.1''"
proof -
  have cs: "currentSpot st 2 = 11 / 10"
    using assms by (simp add: currentSpot_def baseSpot_def)
  have cv: "currentVol st 2 = 33 / 250"
    using assms by (simp add: currentVol_def baseVol_def shiftFactors_def)
  have "requestUrl e st 2 =
      (API_BASE e @ ''/api/simulation/fx-forward-paths?model=ou&paths=200&steps=200&maturity=''
        @ Number_toString (maturity st) @ ''&r_dom='' @ Number_toString (r_dom st)
        @ ''&r_for='' @ Number_toString (r_for st))
      @ ''&spot=1.1000&sigma_ou=0.1320&kappa=3&theta=1.1''"
    unfolding requestUrl_def Let_def cs cv assms(1,5,6)
    by (simp add: Number_toString_examples toFixed_examples)
  then show ?thesis by blast
qed

theorem ou_vol_up_request_witness:
  "modelType ouVolState = OU \<and> shockParam ouVolState = Vol \<and> shiftPct ouVolState = 10
   \<and> ouSpot ouVolState = 11 / 10 \<and> ouKappa ouVolState = 3 \<and> ouTheta ouVolState = 11 / 10
   \<and> ouSigma ouVolState = 12 / 100
   \<and> (\<exists>pre. requestUrl offlineEnv ouVolState 2
         = pre @ ''&spot=1.1000&sigma_ou=0.1320&kappa=3&theta=1.1'')"
  using ou_vol_up_request [of ouVolState offlineEnv]
  by (simp add: ouVolState_def initialState_def)

section \<open>Aggregation\<close>







section \<open>The outcomes of a scenario call\<close>

lemma statsArray_Some:
  "statsArray data name = Some ps \<longleftrightarrow> (\<exists>kvs. data = JObj kvs \<and> map_of kvs name = Some (JArr ps))"
  by (cases data) (auto split: option.splits json.splits)

text \<open>
  A body whose only point has a text for \<open>time\<close>, \<open>null\<close> for \<open>mean\<close> and no \<open>p5\<close> or
  \<open>p95\<close> is accepted and its point tagged.
\<close>

theorem unchecked_points_accepted:
  "\<not> conformsToShape textBody
   \<and> handleResponse offlineEnv ''Base 0%'' (Resolved \<lparr>status = 200, body = Parsed textBody\<rparr>)
       = Inr ([[(''time'', JStr ''soon''), (''mean'', JNull), (''scenario'', JStr ''Base 0%'')]], [])"
  by (simp add: conformsToShape_def textBody_def handleResponse_def ok_def tagPoint_def)

text \<open>
  C6, as the code has it: a scenario call fails with the value \<^verbatim>\<open>fetch\<close> rejected with, with an
  \<^verbatim>\<open>Error\<close> that carries the status code when the status is not in 200 to 299, with the
  \<^verbatim>\<open>SyntaxError\<close> of \<^verbatim>\<open>res.json()\<close> when the body is no JSON, and with a
  \<^verbatim>\<open>TypeError\<close> when the body is not an object whose \<open>underlyingStats\<close> and \<open>pvStats\<close>
  are arrays; it succeeds otherwise, whatever the elements of the two arrays are.
\<close>

theorem call_outcomes:
  "handleResponse e label (Rejected r) = Inl (FetchRejected r)
   \<and> (\<not> (200 \<le> status res \<and> status res \<le> 299) \<longrightarrow>
        handleResponse e label (Resolved res)
          = Inl (ScenarioFailed (''Scenario '' @ label @ '' failed: ''
                                   @ Number_toString (of_nat (status res)))))
   \<and> (200 \<le> status res \<and> status res \<le> 299 \<longrightarrow>
        (\<forall>m. body res = Malformed m \<longrightarrow>
           handleResponse e label (Resolved res) = Inl (JsonRejected m))
        \<and> (\<forall>data. body res = Parsed data \<longrightarrow>
             (statsArray data ''underlyingStats'' = None \<or> statsArray data ''pvStats'' = None \<longrightarrow>
                handleResponse e label (Resolved res) = Inl (TypeError (typeErrorMessage e data)))
             \<and> (\<forall>us ps. statsArray data ''underlyingStats'' = Some us
                          \<and> statsArray data ''pvStats'' = Some ps \<longrightarrow>
                   handleResponse e label (Resolved res)
                     = Inr (map (tagPoint label) us, map (tagPoint label) ps))))
   \<and> (statsArray data name = Some ps
        \<longleftrightarrow> (\<exists>kvs. data = JObj kvs \<and> map_of kvs name = Some (JArr ps)))"
  by (auto simp: handleResponse_def ok_def statsArray_Some split: option.splits)

lemma Number_toString_404: "Number_toString 404 = ''404''"
  by code_simp

theorem call_outcomes_witness:
  "handleResponse offlineEnv ''Up +20%'' (Resolved \<lparr>status = 404, body = Malformed ''''\<rparr>)
     = Inl (ScenarioFailed ''Scenario Up +20% failed: 404'')
   \<and> handleResponse offlineEnv ''Up +20%'' (Resolved \<lparr>status = 200, body = Parsed (JObj [(''pvStats'', JArr [])])\<rparr>)
     = Inl (TypeError [])
   \<and> handleResponse offlineEnv ''Up +20%'' (Resolved \<lparr>status = 200, body = Parsed (JObj [(''underlyingStats'', JArr []), (''pvStats'', JArr [JNull])])\<rparr>)
     = Inr ([], [[(''scenario'', JStr ''Up +20%'')]])"
  using call_outcomes [of offlineEnv "''Up +20%''" None "\<lparr>status = 404, body = Malformed ''''\<rparr>"]
    call_outcomes [of offlineEnv "''Up +20%''" None "\<lparr>status = 200, body = Parsed (JObj [(''pvStats'', JArr [])])\<rparr>"]
    call_outcomes [of offlineEnv "''Up +20%''" None "\<lparr>status = 200, body = Parsed (JObj [(''underlyingStats'', JArr []), (''pvStats'', JArr [JNull])])\<rparr>"]
  by (simp add: Number_toString_404 offlineEnv_def tagPoint_def)

section \<open>The run as a whole\<close>

lemma loop_from_0:
  "loop e st 0 acc =
     (case scenarioResult e st 0 of
        Inl err \<Rightarrow> Inl err
      | Inr t0 \<Rightarrow>
          (case scenarioResult e st 1 of
             Inl err \<Rightarrow> Inl err
           | Inr t1 \<Rightarrow>
               (case scenarioResult e st 2 of
                  Inl err \<Rightarrow> Inl err
                | Inr t2 \<Rightarrow> Inr (fst acc @ fst t0 @ fst t1 @ fst t2,
                                  snd acc @ snd t0 @ snd t1 @ snd t2))))"
proof -
  have three: "loop e st (Suc (Suc (Suc 0))) a = Inr a" for a
    by (subst loop.simps) simp
  have two: "loop e st (Suc (Suc 0)) a =
      (case scenarioResult e st (Suc (Suc 0)) of Inl err \<Rightarrow> Inl err
       | Inr t \<Rightarrow> Inr (fst a @ fst t, snd a @ snd t))" for a
    by (subst loop.simps) (simp add: three split: sum.splits)
  have one: "loop e st (Suc 0) a =
      (case scenarioResult e st (Suc 0) of Inl err \<Rightarrow> Inl err
       | Inr t \<Rightarrow> loop e st (Suc (Suc 0)) (fst a @ fst t, snd a @ snd t))" for a
    by (subst loop.simps) (simp split: sum.splits)
  have zero: "loop e st 0 a =
      (case scenarioResult e st 0 of Inl err \<Rightarrow> Inl err
       | Inr t \<Rightarrow> loop e st (Suc 0) (fst a @ fst t, snd a @ snd t))" for a
    by (subst loop.simps) (simp split: sum.splits)
  show ?thesis
    unfolding zero one two by (simp add: numeral_2_eq_2 split: sum.splits)
qed

lemma run_failed:
  assumes "i < 3" and "scenarioResult e st i = Inl err"
    and "\<forall>j<i. \<exists>t. scenarioResult e st j = Inr t"
  shows "runSensitivity e st =
           st\<lparr>loading := False, errorMsg := Some (errorText err), underlyingStats := [],
              pvStats := []\<rparr>"
proof -
  have "i = 0 \<or> i = 1 \<or> i = 2" using assms(1) by auto
  moreover have "0 < i \<Longrightarrow> \<exists>t. scenarioResult e st 0 = Inr t" using assms(3) by simp
  moreover have "1 < i \<Longrightarrow> \<exists>t. scenarioResult e st 1 = Inr t" using assms(3) by simp
  ultimately have "loop e st 0 ([], []) = Inl err"
    unfolding loop_from_0 using assms(2) by auto
  then show ?thesis
    by (simp add: runSensitivity_def enterRunning_def)
qed

lemma run_succeeded:
  assumes "scenarioResult e st 0 = Inr t0" and "scenarioResult e st 1 = Inr t1"
    and "scenarioResult e st 2 = Inr t2"
  shows "runSensitivity e st =
           st\<lparr>loading := False, errorMsg := None,
              underlyingStats := fst t0 @ fst t1 @ fst t2,
              pvStats := snd t0 @ snd t1 @ snd t2\<rparr>"
proof -
  have "loop e st 0 ([], []) = Inr (fst t0 @ fst t1 @ fst t2, snd t0 @ snd t1 @ snd t2)"
    unfolding loop_from_0 using assms by simp
  then show ?thesis
    by (simp add: runSensitivity_def enterRunning_def)
qed

lemma run_published:
  assumes "underlyingStats (runSensitivity e st) \<noteq> [] \<or> pvStats (runSensitivity e st) \<noteq> []"
  shows "\<forall>i<3. \<exists>t. scenarioResult e st i = Inr t"
proof -
  have "\<exists>a. loop e st 0 ([], []) = Inr a"
    using assms by (auto simp: runSensitivity_def enterRunning_def Let_def split: sum.splits)
  then have "(\<exists>t. scenarioResult e st 0 = Inr t) \<and> (\<exists>t. scenarioResult e st 1 = Inr t)
      \<and> (\<exists>t. scenarioResult e st 2 = Inr t)"
    unfolding loop_from_0 by (auto split: sum.splits)
  then have all: "\<exists>t. scenarioResult e st i = Inr t" if "i = 0 \<or> i = 1 \<or> i = 2" for i
    using that by blast
  show ?thesis
  proof (intro allI impI)
    fix i :: nat
    assume "i < 3"
    then have "i = 0 \<or> i = 1 \<or> i = 2" by auto
    then show "\<exists>t. scenarioResult e st i = Inr t" by (rule all)
  qed
qed

text \<open>When the three calls succeed the run publishes the aggregate of the three bodies.\<close>

lemma run_aggregates:
  assumes "\<And>i. i < 3 \<Longrightarrow> fetch e i (requestUrl e st i) = Resolved (res i)"
    and "\<And>i. i < 3 \<Longrightarrow> ok (res i) \<and> body (res i) = Parsed (d i)"
    and "\<And>i. i < 3 \<Longrightarrow> statsArray (d i) ''underlyingStats'' = Some (us i)
                       \<and> statsArray (d i) ''pvStats'' = Some (ps i)"
  shows "runSensitivity e st =
           st\<lparr>loading := False, errorMsg := None,
              underlyingStats :=
                fst (aggregate (map (\<lambda>i. (scenarioLabels st ! i, us i, ps i)) [0, 1, 2])),
              pvStats :=
                snd (aggregate (map (\<lambda>i. (scenarioLabels st ! i, us i, ps i)) [0, 1, 2]))\<rparr>"
proof -
  have r: "scenarioResult e st i
      = Inr (map (tagPoint (scenarioLabels st ! i)) (us i), map (tagPoint (scenarioLabels st ! i)) (ps i))"
    if "i < 3" for i
    using assms(1) [OF that] assms(2) [OF that] assms(3) [OF that]
    by (simp add: scenarioResult_def handleResponse_def)
  have "runSensitivity e st =
      st\<lparr>loading := False, errorMsg := None,
         underlyingStats := map (tagPoint (scenarioLabels st ! 0)) (us 0)
           @ map (tagPoint (scenarioLabels st ! 1)) (us 1)
           @ map (tagPoint (scenarioLabels st ! 2)) (us 2),
         pvStats := map (tagPoint (scenarioLabels st ! 0)) (ps 0)
           @ map (tagPoint (scenarioLabels st ! 1)) (ps 1)
           @ map (tagPoint (scenarioLabels st ! 2)) (ps 2)\<rparr>"
    using run_succeeded [OF r [of 0] r [of 1] r [of 2]] by simp
  then show ?thesis by (simp add: aggregate_def)
qed

section \<open>The drift\<close>

lemma loop_without_mu: "loop e (st\<lparr>gbmMu := a\<rparr>) i acc = loop e st i acc"
proof (induction e st i acc rule: loop.induct)
  case (1 e st i acc)
  have s: "scenarioResult e (st\<lparr>gbmMu := a\<rparr>) i = scenarioResult e st i"
    by (simp add: scenarioResult_def scenarioLabels_def requestUrl_def currentSpot_def
        currentVol_def baseSpot_def baseVol_def shiftFactors_def)
  show ?case
    using 1 by (subst loop.simps, subst (2) loop.simps) (simp add: s split: sum.splits)
qed

lemma run_without_mu: "runSensitivity e (st\<lparr>gbmMu := a\<rparr>) = (runSensitivity e st)\<lparr>gbmMu := a\<rparr>"
  by (simp add: runSensitivity_def loop_without_mu enterRunning_def Let_def split: sum.splits prod.splits)

text \<open>
  C10: the drift \<open>gbmMu\<close> is in no request: two runs that differ in it only build the same
  three addresses, and end in states that differ in it only.
\<close>

theorem mu_not_sent:
  "map (requestUrl e (st\<lparr>gbmMu := a\<rparr>)) [0, 1, 2] = map (requestUrl e (st\<lparr>gbmMu := b\<rparr>)) [0, 1, 2]
   \<and> runSensitivity e (st\<lparr>gbmMu := a\<rparr>) = (runSensitivity e (st\<lparr>gbmMu := b\<rparr>))\<lparr>gbmMu := a\<rparr>"
  by (simp add: run_without_mu requestUrl_def currentSpot_def currentVol_def baseSpot_def
      baseVol_def shiftFactors_def)

section \<open>One run at a time\<close>

lemma applyEdit_keeps:
  "loading (applyEdit ed st) = loading st"
  "underlyingStats (applyEdit ed st) = underlyingStats st"
  "pvStats (applyEdit ed st) = pvStats st"
  "errorMsg (applyEdit ed st) = errorMsg st"
  by (cases ed; simp)+

lemma one_run_init: "one_run initialUi"
  by (simp add: one_run_def initialUi_def initialState_def)

lemma one_run_click: "one_run u \<Longrightarrow> one_run (step e u Click)"
  by (auto simp: one_run_def startRun_def enterRunning_def)

lemma one_run_edit: "one_run u \<Longrightarrow> one_run (step e u (Edit ed))"
  by (simp add: one_run_def applyEdit_keeps)

lemma one_run_settle:
  assumes "one_run u"
  shows "one_run (step e u (Settle k out))"
proof (cases "k < length (runs u)")
  case False
  then show ?thesis using assms by simp
next
  case True
  with assms obtain r where r: "runs u = [r]" and k: "k = 0"
    by (cases "runs u") (auto simp: one_run_def)
  from assms r have i: "idx r < 3" and l: "loading (view u)"
    and s: "underlyingStats (view u) = []" "pvStats (view u) = []"
    by (auto simp: one_run_def)
  show ?thesis
    using r k i l s
    by (auto simp: one_run_def settle_def removeRun_def Let_def split: sum.splits)
qed

lemma reachable_one_run: "reachable e u \<Longrightarrow> one_run u"
proof (induction rule: reachable.induct)
  case reachable_init
  show ?case by (rule one_run_init)
next
  case (reachable_step u ev)
  then show ?case
    by (cases ev) (simp_all only: one_run_click one_run_edit one_run_settle)
qed

text \<open>
  C7: in every reachable state of the component at most one invocation is in flight, one
  is exactly while \<open>loading\<close> is set, and a click in that state changes nothing: neither the
  rendered state, nor the invocation in flight, nor the addresses fetched.
\<close>

theorem single_run:
  assumes "reachable e u"
  shows "length (runs u) \<le> 1
       \<and> (runs u \<noteq> [] \<longleftrightarrow> loading (view u))
       \<and> (loading (view u) \<longrightarrow> step e u Click = u)
       \<and> (loading (view u) \<longrightarrow>
            runs (step e u Click) = runs u \<and> requests (step e u Click) = requests u
            \<and> view (step e u Click) = view u)"
  using reachable_one_run [OF assms] by (auto simp: one_run_def)

theorem single_run_witness:
  "reachable offlineEnv (step offlineEnv initialUi Click)
   \<and> loading (view (step offlineEnv initialUi Click))
   \<and> length (runs (step offlineEnv initialUi Click)) = 1
   \<and> step offlineEnv (step offlineEnv initialUi Click) Click = step offlineEnv initialUi Click"
proof -
  have r: "reachable offlineEnv (step offlineEnv initialUi Click)"
    by (intro reachable.intros)
  have l: "loading (view (step offlineEnv initialUi Click))"
    and n: "length (runs (step offlineEnv initialUi Click)) = 1"
    by (simp_all add: initialUi_def initialState_def startRun_def enterRunning_def)
  from single_run [OF r] l n r show ?thesis by blast
qed

text \<open>
  A click followed by the three outcomes of the environment renders what \<open>runSensitivity\<close>
  returns.
\<close>

lemma steps_run:
  assumes "\<not> loading st"
  shows "view (steps e \<lparr>view = st, runs = [], requests = rq\<rparr>
                 [Click, Settle 0 (fetch e 0 (requestUrl e st 0)),
                  Settle 0 (fetch e 1 (requestUrl e st 1)),
                  Settle 0 (fetch e 2 (requestUrl e st 2))])
         = runSensitivity e st"
proof -
  let ?h = "\<lambda>i. handleResponse e (scenarioLabels st ! i) (fetch e i (requestUrl e st i))"
  have h: "scenarioResult e st i = ?h i" for i by (simp add: scenarioResult_def)
  consider (a) err where "?h 0 = Inl err"
    | (b) t0 err where "?h 0 = Inr t0" "?h 1 = Inl err"
    | (c) t0 t1 err where "?h 0 = Inr t0" "?h 1 = Inr t1" "?h 2 = Inl err"
    | (d) t0 t1 t2 where "?h 0 = Inr t0" "?h 1 = Inr t1" "?h 2 = Inr t2"
    by (cases "?h 0"; cases "?h 1"; cases "?h 2") auto
  then show ?thesis
  proof cases
    case a
    have "runSensitivity e st = st\<lparr>loading := False, errorMsg := Some (errorText err),
        underlyingStats := [], pvStats := []\<rparr>"
      using a by (intro run_failed [where i = 0]) (simp_all add: h)
    then show ?thesis
      using a assms by (simp add: startRun_def settle_def removeRun_def enterRunning_def)
  next
    case b
    have "runSensitivity e st = st\<lparr>loading := False, errorMsg := Some (errorText err),
        underlyingStats := [], pvStats := []\<rparr>"
      using b by (intro run_failed [where i = 1]) (simp_all add: h)
    then show ?thesis
      using b assms by (simp add: startRun_def settle_def removeRun_def enterRunning_def)
  next
    case c
    have "runSensitivity e st = st\<lparr>loading := False, errorMsg := Some (errorText err),
        underlyingStats := [], pvStats := []\<rparr>"
      using c by (intro run_failed [where i = 2]) (auto simp: h less_Suc_eq numeral_2_eq_2)
    then show ?thesis
      using c assms
      by (simp add: startRun_def settle_def removeRun_def enterRunning_def numeral_2_eq_2)
  next
    case d
    have "runSensitivity e st = st\<lparr>loading := False, errorMsg := None,
        underlyingStats := fst t0 @ fst t1 @ fst t2, pvStats := snd t0 @ snd t1 @ snd t2\<rparr>"
      using d by (intro run_succeeded) (simp_all add: h)
    then show ?thesis
      using d assms
      by (simp add: startRun_def settle_def removeRun_def enterRunning_def numeral_2_eq_2)
  qed
qed

section \<open>Failing fast\<close>

lemma status_failure_labelled:
  assumes "fetch e i (requestUrl e st i) = Resolved res"
    and "\<not> (200 \<le> status res \<and> status res \<le> 299)"
  shows "scenarioResult e st i
           = Inl (ScenarioFailed (''Scenario '' @ scenarioLabels st ! i @ '' failed: ''
                                    @ Number_toString (of_nat (status res))))"
  using assms by (simp add: scenarioResult_def handleResponse_def ok_def)

lemma other_failures_unlabelled:
  "fetch e i (requestUrl e st i) = Rejected r \<Longrightarrow> scenarioResult e st i = Inl (FetchRejected r)"
  "fetch e i (requestUrl e st i) = Resolved res \<Longrightarrow> 200 \<le> status res \<and> status res \<le> 299 \<Longrightarrow>
     body res = Malformed m \<Longrightarrow> scenarioResult e st i = Inl (JsonRejected m)"
  "fetch e i (requestUrl e st i) = Resolved res \<Longrightarrow> 200 \<le> status res \<and> status res \<le> 299 \<Longrightarrow>
     body res = Parsed data \<Longrightarrow>
     statsArray data ''underlyingStats'' = None \<or> statsArray data ''pvStats'' = None \<Longrightarrow>
     scenarioResult e st i = Inl (TypeError (typeErrorMessage e data))"
  by (auto simp: scenarioResult_def handleResponse_def ok_def split: option.splits)

lemma settle_failed:
  assumes "reachable e u" and "k < length (runs u)"
    and "handleResponse e (scenarioLabels (snapshot (runs u ! k)) ! idx (runs u ! k)) out = Inl err"
  shows "step e u (Settle k out)
           = u\<lparr>view := (view u)\<lparr>errorMsg := Some (errorText err), loading := False\<rparr>, runs := []\<rparr>
         \<and> underlyingStats (view (step e u (Settle k out))) = []
         \<and> pvStats (view (step e u (Settle k out))) = []"
proof -
  have inv: "one_run u" using assms(1) by (rule reachable_one_run)
  with assms(2) obtain r where r: "runs u = [r]" and k: "k = 0"
    by (cases "runs u") (auto simp: one_run_def)
  from inv r have "underlyingStats (view u) = []" "pvStats (view u) = []"
    by (auto simp: one_run_def)
  then show ?thesis
    using assms(3) r k by (simp add: settle_def removeRun_def)
qed

lemma Number_toString_500: "Number_toString 500 = ''500''"
  by code_simp

text \<open>
  When the body of the second answer is no JSON the message shown is the one of the parser:
  it does not name the Base scenario.
\<close>

theorem malformed_body_unlabelled:
  "runSensitivity (secondCall (Resolved \<lparr>status = 200, body = Malformed ''Unexpected end of JSON input''\<rparr>))
      initialState
     = initialState\<lparr>errorMsg := Some ''Unexpected end of JSON input''\<rparr>
   \<and> scenarioLabels initialState ! 1 = ''Base 0%''
   \<and> \<not> sublist ''Base 0%'' ''Unexpected end of JSON input''"
proof -
  let ?e = "secondCall (Resolved \<lparr>status = 200, body = Malformed ''Unexpected end of JSON input''\<rparr>)"
  have 0: "\<exists>t. scenarioResult ?e initialState 0 = Inr t"
    by (simp add: scenarioResult_def secondCall_def handleResponse_def ok_def sampleBody_def)
  have 1: "scenarioResult ?e initialState 1 = Inl (JsonRejected ''Unexpected end of JSON input'')"
    by (simp add: scenarioResult_def secondCall_def handleResponse_def ok_def)
  have "runSensitivity ?e initialState
      = initialState\<lparr>loading := False, errorMsg := Some (errorText (JsonRejected ''Unexpected end of JSON input'')),
          underlyingStats := [], pvStats := []\<rparr>"
    using 0 by (intro run_failed [where i = 1] 1) auto
  then have a: "runSensitivity ?e initialState = initialState\<lparr>errorMsg := Some ''Unexpected end of JSON input''\<rparr>"
    by (simp add: initialState_def)
  have b: "scenarioLabels initialState ! 1 = ''Base 0%''"
    by (simp add: scenarioLabels_def)
  have c: "\<not> sublist ''Base 0%'' ''Unexpected end of JSON input''"
    by (simp add: sublist_code)
  from a b c show ?thesis by blast
qed

text \<open>
  C3, as the code has it: when a scenario call fails after the earlier ones succeeded, the run ends
  with \<open>loading\<close> off, one error message and both arrays empty; the message names the
  scenario ("Scenario <label> failed: <status>") when the status is not in 200 to 299, and is
  the message of the thrown value when \<^verbatim>\<open>fetch\<close> rejects, the body is no JSON or an array
  is missing. The arrays are published only when all three calls succeeded, as the
  concatenation of the three tagged results, and while a run is in flight the rendered
  arrays are empty.
\<close>

theorem fail_fast:
  "(i < 3 \<and> scenarioResult e st i = Inl err \<and> (\<forall>j<i. \<exists>t. scenarioResult e st j = Inr t) \<longrightarrow>
      runSensitivity e st
        = st\<lparr>loading := False, errorMsg := Some (errorText err), underlyingStats := [],
             pvStats := []\<rparr>)
   \<and> (fetch e i (requestUrl e st i) = Resolved res \<and> \<not> (200 \<le> status res \<and> status res \<le> 299) \<longrightarrow>
        scenarioResult e st i
          = Inl (ScenarioFailed (''Scenario '' @ scenarioLabels st ! i @ '' failed: ''
                                   @ Number_toString (of_nat (status res)))))
   \<and> (fetch e i (requestUrl e st i) = Rejected r \<longrightarrow>
        scenarioResult e st i = Inl (FetchRejected r))
   \<and> (fetch e i (requestUrl e st i) = Resolved res \<and> 200 \<le> status res \<and> status res \<le> 299
        \<and> body res = Malformed m \<longrightarrow>
        scenarioResult e st i = Inl (JsonRejected m))
   \<and> (fetch e i (requestUrl e st i) = Resolved res \<and> 200 \<le> status res \<and> status res \<le> 299
        \<and> body res = Parsed data
        \<and> (statsArray data ''underlyingStats'' = None \<or> statsArray data ''pvStats'' = None) \<longrightarrow>
        scenarioResult e st i = Inl (TypeError (typeErrorMessage e data)))
   \<and> (scenarioResult e st 0 = Inr t0 \<and> scenarioResult e st 1 = Inr t1
        \<and> scenarioResult e st 2 = Inr t2 \<longrightarrow>
        runSensitivity e st
          = st\<lparr>loading := False, errorMsg := None,
               underlyingStats := fst t0 @ fst t1 @ fst t2,
               pvStats := snd t0 @ snd t1 @ snd t2\<rparr>)
   \<and> (underlyingStats (runSensitivity e st) \<noteq> [] \<or> pvStats (runSensitivity e st) \<noteq> [] \<longrightarrow>
        (\<forall>j<3. \<exists>t. scenarioResult e st j = Inr t))
   \<and> (reachable e u \<and> loading (view u) \<longrightarrow>
        underlyingStats (view u) = [] \<and> pvStats (view u) = [])
   \<and> (reachable e u \<and> k < length (runs u)
        \<and> handleResponse e (scenarioLabels (snapshot (runs u ! k)) ! idx (runs u ! k)) out = Inl err \<longrightarrow>
        step e u (Settle k out)
          = u\<lparr>view := (view u)\<lparr>errorMsg := Some (errorText err), loading := False\<rparr>, runs := []\<rparr>
        \<and> underlyingStats (view (step e u (Settle k out))) = []
        \<and> pvStats (view (step e u (Settle k out))) = [])"
proof -
  have inv: "underlyingStats (view u) = [] \<and> pvStats (view u) = []"
    if "reachable e u" "loading (view u)"
    using reachable_one_run [OF that(1)] that(2) by (simp add: one_run_def)
  show ?thesis
    apply (intro conjI impI)
    subgoal by (elim conjE) (rule run_failed)
    subgoal by (elim conjE) (rule status_failure_labelled)
    subgoal by (rule other_failures_unlabelled(1))
    subgoal by (simp add: other_failures_unlabelled(2))
    subgoal by (elim conjE) (rule other_failures_unlabelled(3), simp_all)
    subgoal by (elim conjE) (rule run_succeeded)
    subgoal by (rule run_published)
    subgoal using inv by simp
    subgoal using inv by simp
    subgoal by (elim conjE) (rule settle_failed [THEN conjunct1])
    subgoal by (elim conjE) (rule settle_failed [THEN conjunct2, THEN conjunct1])
    subgoal by (elim conjE) (rule settle_failed [THEN conjunct2, THEN conjunct2])
    done
qed

theorem fail_fast_witness:
  "runSensitivity (secondCall (Resolved \<lparr>status = 500, body = Malformed []\<rparr>)) initialState
     = initialState\<lparr>errorMsg := Some ''Scenario Base 0% failed: 500''\<rparr>"
proof -
  let ?res = "\<lparr>status = 500, body = Malformed []\<rparr>"
  let ?e = "secondCall (Resolved ?res)"
  let ?err = "ScenarioFailed ''Scenario Base 0% failed: 500''"
  have 0: "\<forall>j<1. \<exists>t. scenarioResult ?e initialState j = Inr t"
    by (simp add: scenarioResult_def secondCall_def handleResponse_def ok_def sampleBody_def)
  have f: "fetch ?e 1 (requestUrl ?e initialState 1) = Resolved ?res
      \<and> \<not> (200 \<le> status ?res \<and> status ?res \<le> 299)"
    by (simp add: secondCall_def)
  have l: "''Scenario '' @ scenarioLabels initialState ! 1 @ '' failed: ''
      @ Number_toString (of_nat (status ?res)) = ''Scenario Base 0% failed: 500''"
    by (simp add: scenarioLabels_def Number_toString_500)
  note ff = fail_fast [of 1 ?e initialState ?err ?res]
  note c1 = ff [THEN conjunct1]
  note c2 = ff [THEN conjunct2, THEN conjunct1]
  have 1: "scenarioResult ?e initialState 1 = Inl ?err"
    using c2 [THEN mp, OF f] unfolding l .
  have lt: "1 < (3::nat)" by simp
  have "runSensitivity ?e initialState
      = initialState\<lparr>loading := False, errorMsg := Some (errorText ?err), underlyingStats := [],
             pvStats := []\<rparr>"
    using lt 1 0 by (intro c1 [THEN mp] conjI)
  then show ?thesis by (simp add: initialState_def)
qed

end
